theory Spec2Isabelle
  imports Complex_Main "HOL-Library.Sublist"
begin

section \<open>The command surface of \<open>main.py\<close>\<close>

text \<open>
  The module \<open>main.py\<close> defines the click commands \<open>run\<close>, \<open>live\<close>,
  \<open>remote-run\<close>, \<open>remote-status\<close> and \<open>ingest-exchange\<close>. Each command
  validates its options with \<open>ctx.fail\<close>, calls one external collaborator and writes
  the outcome. A command is modelled as a function from the ambient world and the option
  values to the trace of the calls it makes together with its result or the exception it
  raises.
\<close>

subsection \<open>Values\<close>

type_synonym timestamp = int

text \<open>A performance frame; the string is what \<open>str(perf)\<close> yields.\<close>

datatype perf = Perf string

fun str_perf :: "perf \<Rightarrow> string" where
  "str_perf (Perf s) = s"

text \<open>\<open>str(x)\<close> of an optional text: \<open>str(None)\<close> is the text \<open>None\<close>.\<close>

fun str_opt :: "string option \<Rightarrow> string" where
  "str_opt None = ''None''"
| "str_opt (Some s) = s"

text \<open>The response of \<open>get_remote_status\<close>: a tuple \<open>(status, perf, log)\<close> or anything else.\<close>

datatype status_response =
  Bare string
| Triple string "perf option" "string option"

text \<open>What \<open>remote_status\<close> returns: \<open>(status, perf)\<close> or the bare response.\<close>

datatype status_result =
  Status_only string
| Status_perf string "perf option"

datatype stream = Stdout | Stderr

subsection \<open>Options\<close>

text \<open>
  The keyword arguments click hands to the commands \<open>run\<close>, \<open>live\<close>,
  \<open>remote_run\<close> and \<open>ingest_exchange\<close>, one field per option name; a command reads
  the fields of the options it declares. The options \<open>define\<close>, \<open>bundle\<close>,
  \<open>end\<close> and \<open>output\<close> carry a suffix. An option without a default is
  \<open>None\<close> when absent.
\<close>

record opts =
  algofile :: "string option"
  algotext :: "string option"
  define_opt :: "string list"
  data_frequency :: string
  capital_base :: "real option"
  bundle_name :: string
  bundle_timestamp :: timestamp
  start :: "timestamp option"
  end_date :: "timestamp option"
  output_dest :: string
  mail :: "string option"
  print_algo :: bool
  local_namespace :: "bool option"
  exchange_name :: "string option"
  algo_namespace :: "string option"
  quote_currency :: "string option"
  live_graph :: bool
  simulate_orders :: bool
  auth_aliases :: "string option"
  include_symbols :: "string option"
  exclude_symbols :: "string option"
  csv :: "string option"
  show_progress :: bool
  verbose :: bool
  validate :: bool

text \<open>
  The keyword arguments forwarded to \<open>_run\<close>. The arguments \<open>initialize\<close>,
  \<open>handle_data\<close>, \<open>before_trading_start\<close>, \<open>analyze\<close>, \<open>data\<close>,
  \<open>analyze_live\<close> and \<open>stats_output\<close> are \<open>None\<close> at every call site and are
  left out. \<open>remote_backtest\<close> takes the same arguments and \<open>mail\<close>.
\<close>

record run_kwargs =
  kw_algofile :: "string option"
  kw_algotext :: "string option"
  kw_defines :: "string list"
  kw_data_frequency :: "string option"
  kw_capital_base :: "real option"
  kw_bundle :: "string option"
  kw_bundle_timestamp :: "timestamp option"
  kw_start :: "timestamp option"
  kw_end :: "timestamp option"
  kw_output :: string
  kw_print_algo :: bool
  kw_local_namespace :: "bool option"
  kw_environ :: "(string \<times> string) list"
  kw_live :: bool
  kw_exchange :: "string option"
  kw_algo_namespace :: "string option"
  kw_quote_currency :: "string option"
  kw_live_graph :: bool
  kw_simulate_orders :: bool
  kw_auth_aliases :: "string option"

record remote_kwargs = run_kwargs +
  kw_mail :: "string option"

text \<open>The keyword arguments of \<open>exchange_bundle.ingest\<close>.\<close>

record ingest_kwargs =
  ig_data_frequency :: string
  ig_include_symbols :: "string option"
  ig_exclude_symbols :: "string option"
  ig_start :: "timestamp option"
  ig_end :: "timestamp option"
  ig_show_progress :: bool
  ig_show_breakdown :: bool
  ig_show_report :: bool
  ig_csv :: "string option"

subsection \<open>The trace, the world and the errors\<close>

text \<open>
  What a command has done, in order: the calls of its collaborators, the texts it has put
  on the console, and the file operations that took effect. \<open>Open_w p\<close> is
  \<open>open(p, 'w')\<close>, which creates or truncates the file, \<open>File_write p s\<close> is
  \<open>file.write(s)\<close> on that file, \<open>To_pickle perf p\<close> is
  \<open>perf.to_pickle(p)\<close>.
\<close>

datatype event =
  Echo string stream
| Print string
| Call_run run_kwargs
| Call_remote_backtest remote_kwargs
| Call_get_remote_status string
| New_ExchangeBundle string
| Call_ingest string ingest_kwargs
| Open_w string
| File_write string string
| To_pickle perf string

text \<open>
  What a command finds around it: the module flag \<open>__IPYTHON__\<close>, \<open>os.environ\<close>,
  \<open>os.devnull\<close>, the imported constant \<open>EXCHANGE_NAMES\<close>, the imported
  collaborators \<open>_run\<close>, \<open>remote_backtest\<close>, \<open>get_remote_status\<close> and
  \<open>ExchangeBundle.ingest\<close>, each returning its value or the text of the exception it
  raises, and the file system: \<open>io_error\<close> gives, for a file operation, the text of the
  \<open>OSError\<close> it raises (no such directory, permission denied, disk full), or
  \<open>None\<close> when it goes through. Writing to the console streams is taken to succeed.
\<close>

record world =
  ipython :: bool
  environ :: "(string \<times> string) list"
  devnull :: string
  EXCHANGE_NAMES :: "string list"
  engine_run :: "run_kwargs \<Rightarrow> string + perf"
  remote_backtest :: "remote_kwargs \<Rightarrow> string + string"
  get_remote_status :: "string \<Rightarrow> string + status_response"
  bundle_ingest :: "string \<Rightarrow> ingest_kwargs \<Rightarrow> string + unit"
  io_error :: "event \<Rightarrow> string option"

text \<open>
  \<open>ctx.fail\<close> raises \<open>click.UsageError\<close>, which click turns into exit status 2;
  any other uncaught exception ends the process with status 1.
\<close>

datatype error =
  UsageError string
| TypeError string
| OSError string
| CollaboratorError string

type_synonym 'a cmd = "event list \<times> (error + 'a)"

fun exit_code :: "'a cmd \<Rightarrow> nat" where
  "exit_code (es, Inl (UsageError m)) = 2"
| "exit_code (es, Inl e) = 1"
| "exit_code (es, Inr x) = 0"

subsection \<open>Sequencing\<close>

definition ret :: "'a \<Rightarrow> 'a cmd" where
  "ret x = ([], Inr x)"

definition skip :: "unit cmd" where
  "skip = ([], Inr ())"

definition bind_cmd :: "'a cmd \<Rightarrow> ('a \<Rightarrow> 'b cmd) \<Rightarrow> 'b cmd" where
  "bind_cmd m k =
     (case m of
        (es, Inl e) \<Rightarrow> (es, Inl e)
      | (es, Inr x) \<Rightarrow> (es @ fst (k x), snd (k x)))"

definition seq :: "unit cmd \<Rightarrow> 'b cmd \<Rightarrow> 'b cmd" where
  "seq m k = bind_cmd m (\<lambda>u. k)"

definition ctx_fail :: "string \<Rightarrow> 'a cmd" where
  "ctx_fail msg = ([], Inl (UsageError msg))"

definition click_echo :: "string \<Rightarrow> stream \<Rightarrow> unit cmd" where
  "click_echo msg file = ([Echo msg file], Inr ())"

definition print :: "string \<Rightarrow> unit cmd" where
  "print msg = ([Print msg], Inr ())"

text \<open>
  A file operation either takes effect and is recorded, or raises \<open>OSError\<close> and
  leaves no record: nothing has been persisted by it.
\<close>

definition file_op :: "world \<Rightarrow> event \<Rightarrow> unit cmd" where
  "file_op w e =
     (case io_error w e of
        None \<Rightarrow> ([e], Inr ())
      | Some exn \<Rightarrow> ([], Inl (OSError exn)))"

definition to_pickle :: "world \<Rightarrow> perf \<Rightarrow> string \<Rightarrow> unit cmd" where
  "to_pickle w p path = file_op w (To_pickle p path)"

text \<open>
  \<open>with open(path, 'w') as file: file.write(log)\<close>. The file is opened, and so
  truncated, before \<open>write\<close> looks at its argument; \<open>write(None)\<close> raises
  \<open>TypeError\<close>.
\<close>

definition file_write :: "world \<Rightarrow> string \<Rightarrow> string option \<Rightarrow> unit cmd" where
  "file_write w path x =
     (case x of
        Some s \<Rightarrow> file_op w (File_write path s)
      | None \<Rightarrow> ([], Inl (TypeError ''write() argument must be str, not None'')))"

definition open_write :: "world \<Rightarrow> string \<Rightarrow> string option \<Rightarrow> unit cmd" where
  "open_write w path x = seq (file_op w (Open_w path)) (file_write w path x)"

definition collaborator :: "event \<Rightarrow> string + 'a \<Rightarrow> 'a cmd" where
  "collaborator e r =
     ([e], case r of Inl exn \<Rightarrow> Inl (CollaboratorError exn) | Inr x \<Rightarrow> Inr x)"

text \<open>
  The calls of \<open>_run\<close>, \<open>remote_backtest\<close>, \<open>get_remote_status\<close>,
  \<open>ExchangeBundle\<close> and \<open>exchange_bundle.ingest\<close>.
\<close>

definition call_run :: "world \<Rightarrow> run_kwargs \<Rightarrow> perf cmd" where
  "call_run w kw = collaborator (Call_run kw) (engine_run w kw)"

definition call_remote_backtest :: "world \<Rightarrow> remote_kwargs \<Rightarrow> string cmd" where
  "call_remote_backtest w kw = collaborator (Call_remote_backtest kw) (remote_backtest w kw)"

definition call_get_remote_status :: "world \<Rightarrow> string \<Rightarrow> status_response cmd" where
  "call_get_remote_status w i = collaborator (Call_get_remote_status i) (get_remote_status w i)"

definition new_ExchangeBundle :: "string \<Rightarrow> unit cmd" where
  "new_ExchangeBundle name = ([New_ExchangeBundle name], Inr ())"

definition call_ingest :: "world \<Rightarrow> string \<Rightarrow> ingest_kwargs \<Rightarrow> unit cmd" where
  "call_ingest w name kw = collaborator (Call_ingest name kw) (bundle_ingest w name kw)"

subsection \<open>\<open>ipython_only\<close>\<close>

text \<open>
  Under IPython the option is a plain click option. Otherwise the decorator wraps the
  command in a function that sets \<open>kwargs[argname] = None\<close> before calling it; the
  wrapped option is \<open>local_namespace\<close> at each of its three uses.
\<close>

definition ipython_only :: "world \<Rightarrow> (opts \<Rightarrow> 'a cmd) \<Rightarrow> opts \<Rightarrow> 'a cmd" where
  "ipython_only w f a =
     (if ipython w then f a else f (a\<lparr>local_namespace := None\<rparr>))"

subsection \<open>The regular expression of the mail check\<close>

text \<open>
  \<open>re.match(r"[^@]+@[^@]+\.[^@]+", mail)\<close>: a pattern is a sequence of pieces, a
  piece is an atom taken once or one or more times, an atom is a literal character or a
  negated character class. \<open>re.match\<close> anchors the match at the start of the text and
  not at its end, and backtracks over the repetitions.
\<close>

datatype atom = Lit char | Not_in "char list"

datatype piece = Once atom | One_or_more atom

fun atom_ok :: "atom \<Rightarrow> char \<Rightarrow> bool" where
  "atom_ok (Lit d) c = (c = d)"
| "atom_ok (Not_in ds) c = (c \<notin> set ds)"

fun re_match :: "piece list \<Rightarrow> string \<Rightarrow> bool" where
  "re_match [] s = True"
| "re_match (Once t # r) [] = False"
| "re_match (Once t # r) (c # cs) = (atom_ok t c \<and> re_match r cs)"
| "re_match (One_or_more t # r) [] = False"
| "re_match (One_or_more t # r) (c # cs) =
     (atom_ok t c \<and> (re_match (One_or_more t # r) cs \<or> re_match r cs))"

definition mail_pattern :: "piece list" where
  "mail_pattern =
     [One_or_more (Not_in ''@''), Once (Lit CHR ''@''),
      One_or_more (Not_in ''@''), Once (Lit CHR ''.''),
      One_or_more (Not_in ''@'')]"

subsection \<open>The commands \<open>run\<close>, \<open>live\<close> and \<open>remote_run\<close>\<close>

text \<open>
  \<open>run_body\<close>, \<open>live_body\<close> and \<open>remote_run_body\<close> are the three functions
  as they are written; \<open>run\<close>, \<open>live\<close> and \<open>remote_run\<close> are what the names
  are bound to once the decorators have been applied, the functions under the wrapper of
  \<open>ipython_only\<close>. Each \<open>ctx.fail\<close> raises, so the checks form a chain and the
  first one that fails decides. A message that ends with an apostrophe has it appended.
\<close>

definition msg_exactly_one :: string where
  "msg_exactly_one =
     ''must specify exactly one of '-f' / '--algofile' or '-t' / '--algotext'' @ [CHR 0x27]"

definition msg_dates :: string where
  "msg_dates =
     ''must specify dates with '-s' / '--start' and '-e' / '--end' in backtest mode''"

definition msg_start :: string where
  "msg_start = ''must specify a start date with '-s' / '--start' in backtest mode''"

definition msg_end :: string where
  "msg_end = ''must specify an end date with '-e' / '--end' in backtest mode''"

definition msg_exchange :: string where
  "msg_exchange = ''must specify an exchange name '-x'' @ [CHR 0x27]"

definition msg_capital :: string where
  "msg_capital = ''must specify a capital base with '--capital-base'' @ [CHR 0x27]"

definition run_body :: "world \<Rightarrow> opts \<Rightarrow> perf cmd" where
  "run_body w a =
     (if (algotext a \<noteq> None) = (algofile a \<noteq> None) then ctx_fail msg_exactly_one
      else if start a = None \<and> end_date a = None then ctx_fail msg_dates
      else if start a = None then ctx_fail msg_start
      else if end_date a = None then ctx_fail msg_end
      else if exchange_name a = None then ctx_fail msg_exchange
      else if quote_currency a = None then
        ctx_fail ''must specify a quote currency with '-c' in backtest mode''
      else if capital_base a = None then ctx_fail msg_capital
      else
        seq (click_echo ''Running in backtesting mode.'' Stdout)
        (bind_cmd
          (call_run w
            \<lparr>kw_algofile = algofile a, kw_algotext = algotext a,
             kw_defines = define_opt a,
             kw_data_frequency = Some (data_frequency a),
             kw_capital_base = capital_base a,
             kw_bundle = Some (bundle_name a),
             kw_bundle_timestamp = Some (bundle_timestamp a),
             kw_start = start a, kw_end = end_date a,
             kw_output = output_dest a, kw_print_algo = print_algo a,
             kw_local_namespace = local_namespace a,
             kw_environ = environ w, kw_live = False,
             kw_exchange = exchange_name a,
             kw_algo_namespace = algo_namespace a,
             kw_quote_currency = quote_currency a,
             kw_live_graph = False, kw_simulate_orders = True,
             kw_auth_aliases = None\<rparr>)
          (\<lambda>perf.
             seq (if output_dest a = ''--'' then skip
                  else if output_dest a = ''-'' then click_echo (str_perf perf) Stdout
                  else if output_dest a \<noteq> devnull w then to_pickle w perf (output_dest a)
                  else skip)
                 (ret perf))))"

definition run :: "world \<Rightarrow> opts \<Rightarrow> perf cmd" where
  "run w = ipython_only w (run_body w)"

definition live_body :: "world \<Rightarrow> opts \<Rightarrow> perf cmd" where
  "live_body w a =
     (if (algotext a \<noteq> None) = (algofile a \<noteq> None) then ctx_fail msg_exactly_one
      else if exchange_name a = None then ctx_fail msg_exchange
      else if algo_namespace a = None then
        ctx_fail ''must specify an algorithm name '-n' in live execution mode''
      else if quote_currency a = None then
        ctx_fail ''must specify a quote currency '-c' in live execution mode''
      else if capital_base a = None then ctx_fail msg_capital
      else
        seq (if simulate_orders a then click_echo ''Running in paper trading mode.'' Stdout
             else click_echo ''Running in live trading mode.'' Stdout)
        (bind_cmd
          (call_run w
            \<lparr>kw_algofile = algofile a, kw_algotext = algotext a,
             kw_defines = define_opt a,
             kw_data_frequency = None,
             kw_capital_base = capital_base a,
             kw_bundle = None,
             kw_bundle_timestamp = None,
             kw_start = start a, kw_end = end_date a,
             kw_output = output_dest a, kw_print_algo = print_algo a,
             kw_local_namespace = local_namespace a,
             kw_environ = environ w, kw_live = True,
             kw_exchange = exchange_name a,
             kw_algo_namespace = algo_namespace a,
             kw_quote_currency = quote_currency a,
             kw_live_graph = live_graph a,
             kw_simulate_orders = simulate_orders a,
             kw_auth_aliases = auth_aliases a\<rparr>)
          (\<lambda>perf.
             seq (if output_dest a = ''-'' then click_echo (str_perf perf) Stdout
                  else if output_dest a \<noteq> devnull w then to_pickle w perf (output_dest a)
                  else skip)
                 (ret perf))))"

definition live :: "world \<Rightarrow> opts \<Rightarrow> perf cmd" where
  "live w = ipython_only w (live_body w)"

definition mail_invalid :: "string option \<Rightarrow> bool" where
  "mail_invalid m = (case m of None \<Rightarrow> True | Some s \<Rightarrow> \<not> re_match mail_pattern s)"

definition msg_mail :: string where
  "msg_mail = ''must specify a valid email with '--mail'' @ [CHR 0x27]"

definition remote_run_body :: "world \<Rightarrow> opts \<Rightarrow> string cmd" where
  "remote_run_body w a =
     (if (algotext a \<noteq> None) = (algofile a \<noteq> None) then ctx_fail msg_exactly_one
      else if start a = None \<and> end_date a = None then ctx_fail msg_dates
      else if start a = None then ctx_fail msg_start
      else if end_date a = None then ctx_fail msg_end
      else if exchange_name a = None then ctx_fail msg_exchange
      else if quote_currency a = None then
        ctx_fail ''must specify a quote currency with '-c' in backtest mode''
      else if capital_base a = None then ctx_fail msg_capital
      else if mail_invalid (mail a) then ctx_fail msg_mail
      else
        (bind_cmd
          (call_remote_backtest w
            \<lparr>kw_algofile = algofile a, kw_algotext = algotext a,
             kw_defines = define_opt a,
             kw_data_frequency = Some (data_frequency a),
             kw_capital_base = capital_base a,
             kw_bundle = Some (bundle_name a),
             kw_bundle_timestamp = Some (bundle_timestamp a),
             kw_start = start a, kw_end = end_date a,
             kw_output = ''--'', kw_print_algo = print_algo a,
             kw_local_namespace = local_namespace a,
             kw_environ = environ w, kw_live = False,
             kw_exchange = exchange_name a,
             kw_algo_namespace = algo_namespace a,
             kw_quote_currency = quote_currency a,
             kw_live_graph = False, kw_simulate_orders = True,
             kw_auth_aliases = None, kw_mail = mail a\<rparr>)
          (\<lambda>algo_id. seq (print algo_id) (ret algo_id))))"

definition remote_run :: "world \<Rightarrow> opts \<Rightarrow> string cmd" where
  "remote_run w = ipython_only w (remote_run_body w)"

subsection \<open>The command \<open>remote_status\<close>\<close>

definition msg_algo_id :: string where
  "msg_algo_id =
     ''must specify an id of your running algorithm with '--id'' @ [CHR 0x27]"

definition remote_status ::
  "world \<Rightarrow> string option \<Rightarrow> string \<Rightarrow> string \<Rightarrow> status_result cmd" where
  "remote_status w algo_id data_output log_output =
     (case algo_id of
        None \<Rightarrow> ctx_fail msg_algo_id
      | Some i \<Rightarrow>
          bind_cmd (call_get_remote_status w i)
            (\<lambda>status_response.
               case status_response of
                 Triple status perf log_text \<Rightarrow>
                   seq (if log_output = ''-'' then click_echo (str_opt log_text) Stderr
                        else if log_output \<noteq> devnull w then open_write w log_output log_text
                        else skip)
                  (seq (case perf of
                          Some p \<Rightarrow>
                            if data_output = ''-'' then
                              click_echo
                                (''the performance data is:'' @ [CHR 0x0A] @ str_perf p) Stdout
                            else if data_output \<noteq> devnull w then to_pickle w p data_output
                            else skip
                        | None \<Rightarrow> skip)
                  (seq (print status)
                       (ret (Status_perf status perf))))
               | Bare s \<Rightarrow> seq (print s) (ret (Status_only s))))"

subsection \<open>The command \<open>ingest_exchange\<close>\<close>

text \<open>
  \<open>format\<close> renders the list \<open>EXCHANGE_NAMES\<close> with \<open>repr\<close> of each name; the
  names are plain identifiers, for which \<open>repr\<close> is the name between apostrophes.
\<close>

definition py_repr :: "string \<Rightarrow> string" where
  "py_repr s = [CHR 0x27] @ s @ [CHR 0x27]"

fun join :: "string \<Rightarrow> string list \<Rightarrow> string" where
  "join sep [] = []"
| "join sep [x] = x"
| "join sep (x # y # ys) = x @ sep @ join sep (y # ys)"

definition str_list :: "string list \<Rightarrow> string" where
  "str_list xs = ''['' @ join '', '' (map py_repr xs) @ '']''"

definition msg_unsupported :: "string \<Rightarrow> string list \<Rightarrow> string" where
  "msg_unsupported name names =
     ''ingest-exchange does not support '' @ name @
     '', please choose exchange from: '' @ str_list names"

text \<open>\<open>not csv\<close>: an absent and an empty path are both false.\<close>

definition falsy :: "string option \<Rightarrow> bool" where
  "falsy s = (s = None \<or> s = Some [])"

definition ingest_exchange :: "world \<Rightarrow> opts \<Rightarrow> unit cmd" where
  "ingest_exchange w a =
     (case exchange_name a of
        None \<Rightarrow> ctx_fail msg_exchange
      | Some name \<Rightarrow>
          if falsy (csv a) \<and> name \<notin> set (EXCHANGE_NAMES w) then
            ctx_fail (msg_unsupported name (EXCHANGE_NAMES w))
          else
            seq (new_ExchangeBundle name)
           (seq (click_echo (''Trying to ingest exchange bundle '' @ name @ ''...'') Stdout)
           (call_ingest w name
              \<lparr>ig_data_frequency = data_frequency a,
               ig_include_symbols = include_symbols a,
               ig_exclude_symbols = exclude_symbols a,
               ig_start = start a, ig_end = end_date a,
               ig_show_progress = show_progress a,
               ig_show_breakdown = verbose a,
               ig_show_report = validate a,
               ig_csv = csv a\<rparr>)))"

subsection \<open>The ingestion engine\<close>

text \<open>
  Modelled from the spec: \<open>ExchangeBundle.ingest\<close> is imported from
  \<open>catalyst.exchange.exchange_bundle\<close>, which is not among the sources. The spec says
  of it that, if a CSV override path is supplied, the date range and the symbol filters
  are ignored entirely regardless of whether they were also supplied, and the help text of
  \<open>--csv\<close> says that instead all data in the file is ingested. Without a CSV path the
  engine works from every argument it is given.
\<close>

datatype ingest_action =
  Ingest_csv string string string bool bool bool
| Ingest_range string ingest_kwargs

definition ExchangeBundle_ingest :: "string \<Rightarrow> ingest_kwargs \<Rightarrow> ingest_action" where
  "ExchangeBundle_ingest name kw =
     (case ig_csv kw of
        Some path \<Rightarrow>
          Ingest_csv name path (ig_data_frequency kw) (ig_show_progress kw)
            (ig_show_breakdown kw) (ig_show_report kw)
      | None \<Rightarrow> Ingest_range name kw)"

fun ingest_effects :: "event list \<Rightarrow> ingest_action list" where
  "ingest_effects [] = []"
| "ingest_effects (Call_ingest name kw # es) = ExchangeBundle_ingest name kw # ingest_effects es"
| "ingest_effects (e # es) = ingest_effects es"

subsection \<open>Observations on a run of a command\<close>

text \<open>
  The verdict of the validation: a command is rejected exactly when it raises
  \<open>click.UsageError\<close>, and the diagnostic is the message of that exception.
\<close>

datatype verdict = Accepted | Rejected string

fun validation :: "'a cmd \<Rightarrow> verdict" where
  "validation (es, Inl (UsageError m)) = Rejected m"
| "validation (es, Inl e) = Accepted"
| "validation (es, Inr x) = Accepted"

text \<open>
  What a command has done once its collaborator has answered: the trace after the first
  call of \<open>_run\<close>, \<open>remote_backtest\<close>, \<open>get_remote_status\<close> or
  \<open>exchange_bundle.ingest\<close>.
\<close>

fun is_collaborator_call :: "event \<Rightarrow> bool" where
  "is_collaborator_call (Call_run kw) = True"
| "is_collaborator_call (Call_remote_backtest kw) = True"
| "is_collaborator_call (Call_get_remote_status i) = True"
| "is_collaborator_call (Call_ingest n kw) = True"
| "is_collaborator_call e = False"

definition outputs :: "event list \<Rightarrow> event list" where
  "outputs es = drop 1 (dropWhile (\<lambda>e. \<not> is_collaborator_call e) es)"

subsection \<open>The shape of a mail address\<close>

text \<open>
  Following the spec's words, a notification address has the shape
  \<open>local-part@domain.tld\<close>: the text up to the first at sign is the local part, what
  follows it holds no further at sign and has a dot that is neither its first nor its last
  character, so that local part, domain and top-level part are all there. The whole text
  has the shape, not a part of it.
\<close>

definition has_mail_shape :: "string \<Rightarrow> bool" where
  "has_mail_shape s =
     (let local_part = takeWhile (\<lambda>c. c \<noteq> CHR ''@'') s;
          rest = dropWhile (\<lambda>c. c \<noteq> CHR ''@'') s;
          domain_tld = tl rest
      in local_part \<noteq> [] \<and> rest \<noteq> [] \<and> CHR ''@'' \<notin> set domain_tld
         \<and> CHR ''.'' \<in> set (butlast (tl domain_tld)))"

subsection \<open>Sample invocations\<close>

text \<open>
  A POSIX process outside IPython whose collaborators all answer, a second process under
  IPython on another platform whose collaborators all raise, and a complete set of options
  for a backtest with a local namespace asked for and no algorithm namespace.
\<close>

definition posix_world :: world where
  "posix_world =
     \<lparr>ipython = False, environ = [(''CATALYST_HOME'', ''/home/op'')],
      devnull = ''/dev/null'',
      EXCHANGE_NAMES = [''bitfinex'', ''bittrex'', ''poloniex''],
      engine_run = (\<lambda>kw. Inr (Perf ''perf'')),
      remote_backtest = (\<lambda>kw. Inr ''job-1''),
      get_remote_status = (\<lambda>i. Inr (Bare ''running'')),
      bundle_ingest = (\<lambda>n kw. Inr ()),
      io_error = (\<lambda>e. None)\<rparr>"

definition other_world :: world where
  "other_world =
     \<lparr>ipython = True, environ = [],
      devnull = ''nul'',
      EXCHANGE_NAMES = [''bitfinex'', ''bittrex'', ''poloniex''],
      engine_run = (\<lambda>kw. Inl ''engine down''),
      remote_backtest = (\<lambda>kw. Inl ''no route''),
      get_remote_status = (\<lambda>i. Inl ''no route''),
      bundle_ingest = (\<lambda>n kw. Inl ''disk full''),
      io_error = (\<lambda>e. Some ''Permission denied'')\<rparr>"

definition backtest_opts :: opts where
  "backtest_opts =
     \<lparr>algofile = None, algotext = Some ''pass'', define_opt = [],
      data_frequency = ''daily'', capital_base = Some 1000,
      bundle_name = ''poloniex'', bundle_timestamp = 0,
      start = Some 1, end_date = Some 2, output_dest = ''-'',
      mail = Some ''ops@example.com'', print_algo = False,
      local_namespace = Some True,
      exchange_name = Some ''bitfinex'', algo_namespace = None,
      quote_currency = Some ''usd'', live_graph = False, simulate_orders = True,
      auth_aliases = None, include_symbols = None, exclude_symbols = None,
      csv = None, show_progress = True, verbose = False, validate = False\<rparr>"


definition no_log_world :: world where
  "no_log_world =
     posix_world\<lparr>get_remote_status :=
       (\<lambda>i. Inr (Triple ''completed'' (Some (Perf ''R'')) None))\<rparr>"

text \<open>The call of \<open>_run\<close> that \<open>run\<close> makes for these options outside IPython.\<close>

definition backtest_call :: run_kwargs where
  "backtest_call =
     \<lparr>kw_algofile = None, kw_algotext = Some ''pass'', kw_defines = [],
      kw_data_frequency = Some ''daily'', kw_capital_base = Some 1000,
      kw_bundle = Some ''poloniex'', kw_bundle_timestamp = Some 0,
      kw_start = Some 1, kw_end = Some 2, kw_output = ''-'', kw_print_algo = False,
      kw_local_namespace = None,
      kw_environ = [(''CATALYST_HOME'', ''/home/op'')], kw_live = False,
      kw_exchange = Some ''bitfinex'', kw_algo_namespace = None,
      kw_quote_currency = Some ''usd'', kw_live_graph = False,
      kw_simulate_orders = True, kw_auth_aliases = None\<rparr>"


section \<open>Properties\<close>

subsection \<open>Sequencing and verdicts\<close>

lemma fst_bind_cmd:
  "fst (bind_cmd m k) = fst m @ (case snd m of Inl e \<Rightarrow> [] | Inr x \<Rightarrow> fst (k x))"
  by (cases m) (simp add: bind_cmd_def split: sum.splits)

lemma snd_bind_cmd:
  "snd (bind_cmd m k) = (case snd m of Inl e \<Rightarrow> Inl e | Inr x \<Rightarrow> snd (k x))"
  by (cases m) (simp add: bind_cmd_def split: sum.splits)

lemma fst_seq: "fst (seq m k) = fst m @ (case snd m of Inl e \<Rightarrow> [] | Inr u \<Rightarrow> fst k)"
  by (simp add: seq_def fst_bind_cmd)

lemma snd_seq: "snd (seq m k) = (case snd m of Inl e \<Rightarrow> Inl e | Inr u \<Rightarrow> snd k)"
  by (simp add: seq_def snd_bind_cmd)

lemma validation_snd:
  "validation c = (case snd c of Inl (UsageError m) \<Rightarrow> Rejected m | _ \<Rightarrow> Accepted)"
  by (cases c rule: validation.cases) simp_all

lemma snd_collaborator:
  "snd (collaborator e r) = (case r of Inl exn \<Rightarrow> Inl (CollaboratorError exn) | Inr x \<Rightarrow> Inr x)"
  by (simp add: collaborator_def)

lemma fst_collaborator: "fst (collaborator e r) = [e]"
  by (simp add: collaborator_def)

lemma snd_if: "snd (if c then x else y) = (if c then snd x else snd y)"
  by simp

lemma validation_if:
  "validation (if c then x else y) = (if c then validation x else validation y)"
  by simp

lemma snd_steps:
  "snd (click_echo s f) = Inr ()" "snd (print s) = Inr ()"
  "snd skip = Inr ()" "snd (new_ExchangeBundle n) = Inr ()"
  by (simp_all add: click_echo_def print_def skip_def new_ExchangeBundle_def)

lemma validation_seq:
  "validation (seq m k) = (case snd m of Inl e \<Rightarrow> validation m | Inr u \<Rightarrow> validation k)"
  by (cases m) (simp add: validation_snd snd_seq split: sum.splits)

lemma validation_bind_collaborator:
  "(\<And>x. validation (k x) = Accepted) \<Longrightarrow> validation (bind_cmd (collaborator e r) k) = Accepted"
  by (cases r) (simp_all add: validation_snd snd_bind_cmd snd_collaborator)

lemma validation_collaborator: "validation (collaborator e r) = Accepted"
  by (cases r) (simp_all add: collaborator_def)

lemma validation_ret: "validation (ret x) = Accepted"
  by (simp add: ret_def)

lemma validation_ctx_fail: "validation (ctx_fail m) = Rejected m"
  by (simp add: ctx_fail_def)

lemma ipython_only_eq:
  "ipython_only w f a = f (if ipython w then a else a\<lparr>local_namespace := None\<rparr>)"
  by (simp add: ipython_only_def)

lemmas call_defs = call_run_def call_remote_backtest_def call_get_remote_status_def
  call_ingest_def

lemmas proj_simps = fst_bind_cmd snd_bind_cmd fst_seq snd_seq fst_collaborator snd_collaborator
  call_defs

lemmas step_defs = ctx_fail_def click_echo_def print_def to_pickle_def ret_def skip_def
  new_ExchangeBundle_def open_write_def file_write_def file_op_def

lemmas validation_simps = validation_if validation_seq snd_if snd_steps
  validation_bind_collaborator validation_collaborator validation_ret validation_ctx_fail call_defs

text \<open>Steps that never raise a usage error, and what is built from them.\<close>

lemma validation_trace: "validation (es, r) = validation (es', r)"
  by (cases "(es, r)" rule: validation.cases) simp_all

lemma accepted_bind:
  assumes "validation m = Accepted" and "\<And>x. validation (k x) = Accepted"
  shows "validation (bind_cmd m k) = Accepted"
proof (cases m)
  case (Pair es r)
  show ?thesis
  proof (cases r)
    case (Inl e)
    with Pair assms(1) show ?thesis by (cases e) (simp_all add: bind_cmd_def)
  next
    case (Inr x)
    have "bind_cmd m k = (es @ fst (k x), snd (k x))"
      using Pair Inr by (simp add: bind_cmd_def)
    moreover have "validation (es @ fst (k x), snd (k x)) = validation (fst (k x), snd (k x))"
      by (rule validation_trace)
    ultimately show ?thesis using assms(2) [of x] by simp
  qed
qed

lemma accepted_seq:
  "validation m = Accepted \<Longrightarrow> validation k = Accepted \<Longrightarrow> validation (seq m k) = Accepted"
  unfolding seq_def by (rule accepted_bind)

lemma accepted_if:
  "validation x = Accepted \<Longrightarrow> validation y = Accepted \<Longrightarrow>
     validation (if c then x else y) = Accepted"
  by simp

lemma accepted_case_option:
  "validation g = Accepted \<Longrightarrow> (\<And>p. validation (f p) = Accepted) \<Longrightarrow>
     validation (case x of None \<Rightarrow> g | Some p \<Rightarrow> f p) = Accepted"
  by (cases x) simp_all

lemma accepted_case_response:
  "(\<And>s. validation (g s) = Accepted) \<Longrightarrow> (\<And>s p l. validation (f s p l) = Accepted) \<Longrightarrow>
     validation (case x of Bare s \<Rightarrow> g s | Triple s p l \<Rightarrow> f s p l) = Accepted"
  by (cases x) simp_all

lemma accepted_file_op: "validation (file_op w e) = Accepted"
  by (simp add: file_op_def split: option.splits)

lemma accepted_steps:
  "validation (click_echo s f) = Accepted" "validation (print s) = Accepted"
  "validation skip = Accepted" "validation (new_ExchangeBundle n) = Accepted"
  "validation (to_pickle w p q) = Accepted" "validation (file_write w q x) = Accepted"
  by (simp_all add: click_echo_def print_def skip_def new_ExchangeBundle_def to_pickle_def
      file_write_def accepted_file_op split: option.splits)

lemma accepted_open_write: "validation (open_write w path x) = Accepted"
  unfolding open_write_def by (intro accepted_seq accepted_file_op accepted_steps)

lemmas accepted_intros = accepted_seq accepted_bind accepted_if accepted_case_option
  accepted_case_response accepted_file_op accepted_steps accepted_open_write
  validation_collaborator validation_ret

lemma validation_engine_tail:
  assumes "validation m = Accepted" and "\<And>p. validation (out p) = Accepted"
  shows "validation (seq m (bind_cmd (collaborator e r) (\<lambda>p. seq (out p) (ret p)))) = Accepted"
  by (intro accepted_intros assms)

lemma validation_submit_tail:
  "validation (bind_cmd (collaborator e r) (\<lambda>i. seq (print i) (ret i))) = Accepted"
  by (intro accepted_intros)

lemmas verdict_simps = validation_if validation_ctx_fail validation_engine_tail
  validation_submit_tail call_defs accepted_steps if_cancel

text \<open>The verdict of each command body, as a function of the options alone.\<close>

lemma validation_run_body:
  "validation (run_body w a) =
     (if (algotext a \<noteq> None) = (algofile a \<noteq> None) then Rejected msg_exactly_one
      else if start a = None \<and> end_date a = None then Rejected msg_dates
      else if start a = None then Rejected msg_start
      else if end_date a = None then Rejected msg_end
      else if exchange_name a = None then Rejected msg_exchange
      else if quote_currency a = None then
        Rejected ''must specify a quote currency with '-c' in backtest mode''
      else if capital_base a = None then Rejected msg_capital
      else Accepted)"
  by (simp only: run_body_def verdict_simps)

lemma validation_live_body:
  "validation (live_body w a) =
     (if (algotext a \<noteq> None) = (algofile a \<noteq> None) then Rejected msg_exactly_one
      else if exchange_name a = None then Rejected msg_exchange
      else if algo_namespace a = None then
        Rejected ''must specify an algorithm name '-n' in live execution mode''
      else if quote_currency a = None then
        Rejected ''must specify a quote currency '-c' in live execution mode''
      else if capital_base a = None then Rejected msg_capital
      else Accepted)"
  by (simp only: live_body_def verdict_simps)

lemma validation_remote_run_body:
  "validation (remote_run_body w a) =
     (if (algotext a \<noteq> None) = (algofile a \<noteq> None) then Rejected msg_exactly_one
      else if start a = None \<and> end_date a = None then Rejected msg_dates
      else if start a = None then Rejected msg_start
      else if end_date a = None then Rejected msg_end
      else if exchange_name a = None then Rejected msg_exchange
      else if quote_currency a = None then
        Rejected ''must specify a quote currency with '-c' in backtest mode''
      else if capital_base a = None then Rejected msg_capital
      else if mail_invalid (mail a) then Rejected msg_mail
      else Accepted)"
  by (simp only: remote_run_body_def verdict_simps)

lemma validation_remote_status:
  "validation (remote_status w i d l) =
     (case i of None \<Rightarrow> Rejected msg_algo_id | Some j \<Rightarrow> Accepted)"
proof (cases i)
  case None
  then show ?thesis by (simp add: remote_status_def validation_ctx_fail)
next
  case (Some j)
  have "validation (remote_status w (Some j) d l) = Accepted"
    unfolding remote_status_def option.case call_get_remote_status_def
    by (intro accepted_intros)
  then show ?thesis using Some
    by simp
qed

lemma validation_ingest_exchange:
  "validation (ingest_exchange w a) =
     (case exchange_name a of
        None \<Rightarrow> Rejected msg_exchange
      | Some name \<Rightarrow>
          if falsy (csv a) \<and> name \<notin> set (EXCHANGE_NAMES w) then
            Rejected (msg_unsupported name (EXCHANGE_NAMES w))
          else Accepted)"
  by (simp add: ingest_exchange_def validation_simps split: option.splits)

lemma unwrap_fields:
  "algotext (a\<lparr>local_namespace := v\<rparr>) = algotext a"
  "algofile (a\<lparr>local_namespace := v\<rparr>) = algofile a"
  "start (a\<lparr>local_namespace := v\<rparr>) = start a"
  "end_date (a\<lparr>local_namespace := v\<rparr>) = end_date a"
  "exchange_name (a\<lparr>local_namespace := v\<rparr>) = exchange_name a"
  "algo_namespace (a\<lparr>local_namespace := v\<rparr>) = algo_namespace a"
  "quote_currency (a\<lparr>local_namespace := v\<rparr>) = quote_currency a"
  "capital_base (a\<lparr>local_namespace := v\<rparr>) = capital_base a"
  "mail (a\<lparr>local_namespace := v\<rparr>) = mail a"
  "output_dest (a\<lparr>local_namespace := v\<rparr>) = output_dest a"
  by simp_all

lemma validation_run: "validation (run w a) = validation (run_body w a)"
proof (cases "ipython w")
  case True
  then show ?thesis by (simp only: run_def ipython_only_def if_True)
next
  case False
  then have "run w a = run_body w (a\<lparr>local_namespace := None\<rparr>)"
    by (simp only: run_def ipython_only_def if_False)
  moreover have "validation (run_body w (a\<lparr>local_namespace := None\<rparr>)) =
      validation (run_body w a)"
    by (simp only: validation_run_body unwrap_fields)
  ultimately show ?thesis by (simp only:)
qed

lemma validation_live: "validation (live w a) = validation (live_body w a)"
proof (cases "ipython w")
  case True
  then show ?thesis by (simp only: live_def ipython_only_def if_True)
next
  case False
  then have "live w a = live_body w (a\<lparr>local_namespace := None\<rparr>)"
    by (simp only: live_def ipython_only_def if_False)
  moreover have "validation (live_body w (a\<lparr>local_namespace := None\<rparr>)) =
      validation (live_body w a)"
    by (simp only: validation_live_body unwrap_fields)
  ultimately show ?thesis by (simp only:)
qed

lemma validation_remote_run: "validation (remote_run w a) = validation (remote_run_body w a)"
proof (cases "ipython w")
  case True
  then show ?thesis by (simp only: remote_run_def ipython_only_def if_True)
next
  case False
  then have "remote_run w a = remote_run_body w (a\<lparr>local_namespace := None\<rparr>)"
    by (simp only: remote_run_def ipython_only_def if_False)
  moreover have "validation (remote_run_body w (a\<lparr>local_namespace := None\<rparr>)) =
      validation (remote_run_body w a)"
    by (simp only: validation_remote_run_body unwrap_fields)
  ultimately show ?thesis by (simp only:)
qed

subsection \<open>Exactly one algorithm source\<close>

text \<open>
  Claim C1. For each of \<open>run\<close>, \<open>live\<close> and \<open>remote_run\<close>: when both of
  \<open>algofile\<close> and \<open>algotext\<close> are given, or neither is, the command raises the
  usage error of the exclusivity check, the process exits with a status that is not zero
  (status 2), and the trace is empty, so neither \<open>_run\<close> nor \<open>remote_backtest\<close> has
  been called.
\<close>

theorem algo_source_exclusive:
  assumes "(algotext a \<noteq> None) = (algofile a \<noteq> None)"
  shows "run w a = ([], Inl (UsageError msg_exactly_one))
       \<and> live w a = ([], Inl (UsageError msg_exactly_one))
       \<and> remote_run w a = ([], Inl (UsageError msg_exactly_one))
       \<and> exit_code (run w a) = 2 \<and> exit_code (live w a) = 2
       \<and> exit_code (remote_run w a) = 2"
  using assms
  by (simp add: run_def live_def remote_run_def ipython_only_def run_body_def live_body_def
      remote_run_body_def ctx_fail_def)

theorem algo_source_exclusive_witness:
  "run posix_world (backtest_opts\<lparr>algofile := Some ''algo.py''\<rparr>) =
     ([], Inl (UsageError msg_exactly_one))
   \<and> exit_code (live posix_world (backtest_opts\<lparr>algofile := Some ''algo.py''\<rparr>)) = 2
   \<and> remote_run posix_world (backtest_opts\<lparr>algotext := None\<rparr>) =
     ([], Inl (UsageError msg_exactly_one))"
  using algo_source_exclusive [of "backtest_opts\<lparr>algofile := Some ''algo.py''\<rparr>" posix_world]
        algo_source_exclusive [of "backtest_opts\<lparr>algotext := None\<rparr>" posix_world]
  by (simp add: backtest_opts_def)

subsection \<open>A bare status\<close>

text \<open>
  Claim C7. When \<open>get_remote_status\<close> answers with a bare status and not with a
  tuple, \<open>remote_status\<close> polls once, prints the status and returns it: nothing is
  written to the data destination or to the log destination, whatever they are.
\<close>

theorem bare_status:
  assumes "get_remote_status w i = Inr (Bare s)"
  shows "remote_status w (Some i) data_output log_output =
           ([Call_get_remote_status i, Print s], Inr (Status_only s))"
  using assms
  by (simp add: remote_status_def call_get_remote_status_def collaborator_def bind_cmd_def
      seq_def print_def ret_def)

theorem bare_status_witness:
  "remote_status posix_world (Some ''job-1'') ''perf.pkl'' ''run.log'' =
     ([Call_get_remote_status ''job-1'', Print ''running''], Inr (Status_only ''running''))"
  using bare_status [of posix_world "''job-1''" "''running''" "''perf.pkl''" "''run.log''"]
  by (simp add: posix_world_def)


subsection \<open>Start and end dates\<close>

lemma msg_names:
  "sublist ''--end'' msg_end \<and> \<not> sublist ''--start'' msg_end
   \<and> sublist ''--start'' msg_start \<and> \<not> sublist ''--end'' msg_start
   \<and> sublist ''--start'' msg_dates \<and> sublist ''--end'' msg_dates"
  unfolding msg_end_def msg_start_def msg_dates_def by code_simp

text \<open>
  Claim C5. For \<open>run\<close> and \<open>remote_run\<close> with exactly one algorithm source: with a
  start date and no end date the command fails with the message that names \<open>--end\<close>
  (and not \<open>--start\<close>); with an end date and no start date it fails with the message
  that names \<open>--start\<close> (and not \<open>--end\<close>); with neither it fails with the one
  joint message that names both, since the joint check comes first. No call is made.
\<close>

theorem dates_required:
  assumes "(algotext a \<noteq> None) \<noteq> (algofile a \<noteq> None)"
  shows "(start a \<noteq> None \<and> end_date a = None \<longrightarrow>
            run w a = ([], Inl (UsageError msg_end))
          \<and> remote_run w a = ([], Inl (UsageError msg_end)))
       \<and> (start a = None \<and> end_date a \<noteq> None \<longrightarrow>
            run w a = ([], Inl (UsageError msg_start))
          \<and> remote_run w a = ([], Inl (UsageError msg_start)))
       \<and> (start a = None \<and> end_date a = None \<longrightarrow>
            run w a = ([], Inl (UsageError msg_dates))
          \<and> remote_run w a = ([], Inl (UsageError msg_dates)))
       \<and> sublist ''--end'' msg_end \<and> \<not> sublist ''--start'' msg_end
       \<and> sublist ''--start'' msg_start \<and> \<not> sublist ''--end'' msg_start
       \<and> sublist ''--start'' msg_dates \<and> sublist ''--end'' msg_dates"
proof -
  have "start a \<noteq> None \<and> end_date a = None \<longrightarrow>
            run w a = ([], Inl (UsageError msg_end))
          \<and> remote_run w a = ([], Inl (UsageError msg_end))"
    using assms
    by (auto simp add: run_def remote_run_def ipython_only_def run_body_def
        remote_run_body_def ctx_fail_def)
  moreover have "start a = None \<and> end_date a \<noteq> None \<longrightarrow>
            run w a = ([], Inl (UsageError msg_start))
          \<and> remote_run w a = ([], Inl (UsageError msg_start))"
    using assms
    by (auto simp add: run_def remote_run_def ipython_only_def run_body_def
        remote_run_body_def ctx_fail_def)
  moreover have "start a = None \<and> end_date a = None \<longrightarrow>
            run w a = ([], Inl (UsageError msg_dates))
          \<and> remote_run w a = ([], Inl (UsageError msg_dates))"
    using assms
    by (auto simp add: run_def remote_run_def ipython_only_def run_body_def
        remote_run_body_def ctx_fail_def)
  ultimately show ?thesis using msg_names by blast
qed

theorem dates_required_witness:
  "run posix_world (backtest_opts\<lparr>end_date := None\<rparr>) = ([], Inl (UsageError msg_end))
   \<and> remote_run posix_world (backtest_opts\<lparr>start := None\<rparr>) =
       ([], Inl (UsageError msg_start))
   \<and> run posix_world (backtest_opts\<lparr>start := None, end_date := None\<rparr>) =
       ([], Inl (UsageError msg_dates))"
  using dates_required [of "backtest_opts\<lparr>end_date := None\<rparr>" posix_world]
        dates_required [of "backtest_opts\<lparr>start := None\<rparr>" posix_world]
        dates_required [of "backtest_opts\<lparr>start := None, end_date := None\<rparr>" posix_world]
  by (simp add: backtest_opts_def)


subsection \<open>The local namespace outside IPython\<close>

text \<open>
  Claim C10. When the process does not run under IPython, every call of \<open>_run\<close> made
  by \<open>run\<close> or \<open>live\<close>, and every call of \<open>remote_backtest\<close> made by
  \<open>remote_run\<close>, carries \<open>local_namespace = None\<close>, whatever the options hold:
  the wrapper of \<open>ipython_only\<close> overwrites the value.
\<close>

theorem local_namespace_forced:
  assumes "\<not> ipython w"
  shows "(\<forall>kw. Call_run kw \<in> set (fst (run w a)) \<longrightarrow> kw_local_namespace kw = None)
       \<and> (\<forall>kw. Call_run kw \<in> set (fst (live w a)) \<longrightarrow> kw_local_namespace kw = None)
       \<and> (\<forall>kw. Call_remote_backtest kw \<in> set (fst (remote_run w a)) \<longrightarrow>
             kw_local_namespace kw = None)"
proof (intro conjI allI impI)
  fix kw assume "Call_run kw \<in> set (fst (run w a))"
  then show "kw_local_namespace kw = None"
    using assms
    by (auto simp add: run_def ipython_only_def run_body_def proj_simps step_defs
        split: sum.splits if_splits option.splits)
next
  fix kw assume "Call_run kw \<in> set (fst (live w a))"
  then show "kw_local_namespace kw = None"
    using assms
    by (auto simp add: live_def ipython_only_def live_body_def proj_simps step_defs
        split: sum.splits if_splits option.splits)
next
  fix kw assume "Call_remote_backtest kw \<in> set (fst (remote_run w a))"
  then show "kw_local_namespace kw = None"
    using assms
    by (auto simp add: remote_run_def ipython_only_def remote_run_body_def proj_simps step_defs
        split: sum.splits if_splits option.splits)
qed

theorem local_namespace_forced_witness:
  "\<not> ipython posix_world
   \<and> local_namespace backtest_opts = Some True
   \<and> Call_run backtest_call \<in> set (fst (run posix_world backtest_opts))
   \<and> kw_local_namespace backtest_call = None"
  using local_namespace_forced [of posix_world backtest_opts]
  by (simp add: posix_world_def backtest_opts_def backtest_call_def run_def ipython_only_def
      run_body_def proj_simps step_defs)

subsection \<open>Validation depends on the options alone\<close>

text \<open>
  Claim C9. The verdict of the validation of a command, acceptance or rejection together
  with the diagnostic, is a function of the option values: it is the same in any two
  worlds, whatever the environment, the IPython flag, the null device and the answers of
  the collaborators are. For \<open>ingest_exchange\<close> the two worlds share the constant
  \<open>EXCHANGE_NAMES\<close> of the program.
\<close>

theorem validation_pure:
  "validation (run w a) = validation (run w' a)
   \<and> validation (live w a) = validation (live w' a)
   \<and> validation (remote_run w a) = validation (remote_run w' a)
   \<and> validation (remote_status w i d l) = validation (remote_status w' i d l)
   \<and> (EXCHANGE_NAMES w = EXCHANGE_NAMES w' \<longrightarrow>
        validation (ingest_exchange w a) = validation (ingest_exchange w' a))"
proof (intro conjI impI)
  show "validation (run w a) = validation (run w' a)"
    by (simp only: validation_run validation_run_body)
  show "validation (live w a) = validation (live w' a)"
    by (simp only: validation_live validation_live_body)
  show "validation (remote_run w a) = validation (remote_run w' a)"
    by (simp only: validation_remote_run validation_remote_run_body)
  show "validation (remote_status w i d l) = validation (remote_status w' i d l)"
    by (simp only: validation_remote_status)
next
  assume "EXCHANGE_NAMES w = EXCHANGE_NAMES w'"
  then show "validation (ingest_exchange w a) = validation (ingest_exchange w' a)"
    by (simp only: validation_ingest_exchange)
qed

theorem validation_pure_witness:
  "validation (run posix_world backtest_opts) = validation (run other_world backtest_opts)
   \<and> validation (live posix_world backtest_opts) = validation (live other_world backtest_opts)
   \<and> validation (remote_run posix_world backtest_opts) =
       validation (remote_run other_world backtest_opts)
   \<and> validation (remote_status posix_world None ''-'' ''-'') =
       validation (remote_status other_world None ''-'' ''-'')
   \<and> EXCHANGE_NAMES posix_world = EXCHANGE_NAMES other_world
   \<and> validation (ingest_exchange posix_world backtest_opts) =
       validation (ingest_exchange other_world backtest_opts)"
  using validation_pure [of posix_world backtest_opts other_world None "''-''" "''-''"]
  by (simp add: posix_world_def other_world_def)


subsection \<open>A rejected command has done nothing\<close>

lemma if_chain: "P x \<Longrightarrow> P y \<Longrightarrow> P (if c then x else y)"
  by simp

lemma rejected_ctx_fail:
  "\<forall>m. validation (ctx_fail msg :: 'a cmd) = Rejected m \<longrightarrow>
     (ctx_fail msg :: 'a cmd) = ([], Inl (UsageError m))"
  by (simp add: ctx_fail_def)

lemma rejected_accepted:
  "validation c = Accepted \<Longrightarrow>
     \<forall>m. validation c = Rejected m \<longrightarrow> c = ([], Inl (UsageError m))"
  by simp

lemma run_body_rejected:
  "\<forall>m. validation (run_body w a) = Rejected m \<longrightarrow> run_body w a = ([], Inl (UsageError m))"
  unfolding run_body_def
  by (intro if_chain [where P = "\<lambda>c. \<forall>m. validation c = Rejected m \<longrightarrow>
        c = ([], Inl (UsageError m))"] rejected_ctx_fail rejected_accepted)
     (simp only: verdict_simps)

lemma live_body_rejected:
  "\<forall>m. validation (live_body w a) = Rejected m \<longrightarrow> live_body w a = ([], Inl (UsageError m))"
  unfolding live_body_def
  by (intro if_chain [where P = "\<lambda>c. \<forall>m. validation c = Rejected m \<longrightarrow>
        c = ([], Inl (UsageError m))"] rejected_ctx_fail rejected_accepted)
     (simp only: verdict_simps)

lemma remote_run_body_rejected:
  "\<forall>m. validation (remote_run_body w a) = Rejected m \<longrightarrow>
     remote_run_body w a = ([], Inl (UsageError m))"
  unfolding remote_run_body_def
  by (intro if_chain [where P = "\<lambda>c. \<forall>m. validation c = Rejected m \<longrightarrow>
        c = ([], Inl (UsageError m))"] rejected_ctx_fail rejected_accepted)
     (simp only: verdict_simps)

lemma wrapped_cases:
  "ipython_only w f a = f a \<or> ipython_only w f a = f (a\<lparr>local_namespace := None\<rparr>)"
  by (simp add: ipython_only_def)

lemma run_rejected:
  assumes "validation (run w a) = Rejected m"
  shows "run w a = ([], Inl (UsageError m))"
  using assms wrapped_cases [of w "run_body w" a] run_body_rejected
  unfolding run_def by metis

lemma live_rejected:
  assumes "validation (live w a) = Rejected m"
  shows "live w a = ([], Inl (UsageError m))"
  using assms wrapped_cases [of w "live_body w" a] live_body_rejected
  unfolding live_def by metis

lemma remote_run_rejected:
  assumes "validation (remote_run w a) = Rejected m"
  shows "remote_run w a = ([], Inl (UsageError m))"
  using assms wrapped_cases [of w "remote_run_body w" a] remote_run_body_rejected
  unfolding remote_run_def by metis


subsection \<open>What \<open>live\<close> requires and \<open>run\<close> does not\<close>

lemma False_conj: "(False \<and> P) = False"
  by simp

lemma backtest_conditions:
  assumes "(algotext a \<noteq> None) \<noteq> (algofile a \<noteq> None)"
    and "start a \<noteq> None" and "end_date a \<noteq> None" and "exchange_name a \<noteq> None"
    and "quote_currency a \<noteq> None" and "capital_base a \<noteq> None"
  shows "((algotext a \<noteq> None) = (algofile a \<noteq> None)) = False"
    and "(start a = None \<and> end_date a = None) = False"
    and "(start a = None) = False" and "(end_date a = None) = False"
    and "(exchange_name a = None) = False" and "(quote_currency a = None) = False"
    and "(capital_base a = None) = False"
  using assms by blast+

lemma run_accepted:
  assumes "(algotext a \<noteq> None) \<noteq> (algofile a \<noteq> None)"
    and "start a \<noteq> None" and "end_date a \<noteq> None" and "exchange_name a \<noteq> None"
    and "quote_currency a \<noteq> None" and "capital_base a \<noteq> None"
  shows "validation (run w a) = Accepted"
  by (simp only: validation_run validation_run_body backtest_conditions [OF assms] if_False False_conj)

lemma remote_run_verdict:
  assumes "(algotext a \<noteq> None) \<noteq> (algofile a \<noteq> None)"
    and "start a \<noteq> None" and "end_date a \<noteq> None" and "exchange_name a \<noteq> None"
    and "quote_currency a \<noteq> None" and "capital_base a \<noteq> None"
  shows "validation (remote_run w a) =
           (if mail_invalid (mail a) then Rejected msg_mail else Accepted)"
  by (simp only: validation_remote_run validation_remote_run_body
      backtest_conditions [OF assms] if_False False_conj)

text \<open>
  Claim C8. \<open>live\<close> is rejected, before any call, whenever the exchange name, the
  algorithm namespace, the quote currency or the capital base is absent. \<open>run\<close> does
  not ask for the namespace: an invocation of \<open>run\<close> that meets the rules of
  \<open>run\<close> (one algorithm source, both dates, exchange name, quote currency, capital
  base) is accepted with no namespace.
\<close>

theorem live_requires_namespace:
  "(exchange_name a = None \<or> algo_namespace a = None \<or> quote_currency a = None
      \<or> capital_base a = None \<longrightarrow>
      validation (live w a) \<noteq> Accepted \<and> fst (live w a) = [])
   \<and> ((algotext a \<noteq> None) \<noteq> (algofile a \<noteq> None) \<and> start a \<noteq> None \<and> end_date a \<noteq> None
      \<and> exchange_name a \<noteq> None \<and> quote_currency a \<noteq> None \<and> capital_base a \<noteq> None \<longrightarrow>
      validation (run w (a\<lparr>algo_namespace := None\<rparr>)) = Accepted)"
proof (intro conjI impI)
  assume "exchange_name a = None \<or> algo_namespace a = None \<or> quote_currency a = None
      \<or> capital_base a = None"
  then have "\<exists>m. live w a = ([], Inl (UsageError m))"
    by (auto simp add: live_def ipython_only_def live_body_def ctx_fail_def)
  then show "validation (live w a) \<noteq> Accepted" "fst (live w a) = []"
    by auto
next
  assume h: "(algotext a \<noteq> None) \<noteq> (algofile a \<noteq> None) \<and> start a \<noteq> None
      \<and> end_date a \<noteq> None
      \<and> exchange_name a \<noteq> None \<and> quote_currency a \<noteq> None \<and> capital_base a \<noteq> None"
  show "validation (run w (a\<lparr>algo_namespace := None\<rparr>)) = Accepted"
    by (rule run_accepted) (use h in simp_all)
qed

theorem live_requires_namespace_witness:
  "algo_namespace backtest_opts = None
   \<and> validation (live posix_world backtest_opts) \<noteq> Accepted
   \<and> fst (live posix_world backtest_opts) = []
   \<and> validation (run posix_world (backtest_opts\<lparr>algo_namespace := None\<rparr>)) = Accepted"
  using live_requires_namespace [of backtest_opts posix_world]
  by (simp add: backtest_opts_def)


subsection \<open>The mail address of \<open>remote_run\<close>\<close>

lemma re_match_Once:
  "re_match (Once t # r) s \<longleftrightarrow> (\<exists>c cs. s = c # cs \<and> atom_ok t c \<and> re_match r cs)"
  by (cases s) auto

lemma re_match_One_or_more:
  "re_match (One_or_more t # r) s \<longleftrightarrow>
     (\<exists>x y. s = x @ y \<and> x \<noteq> [] \<and> (\<forall>c \<in> set x. atom_ok t c) \<and> re_match r y)"
proof (induction s)
  case Nil
  then show ?case by simp
next
  case (Cons c cs)
  show ?case
  proof
    assume "re_match (One_or_more t # r) (c # cs)"
    then have ok: "atom_ok t c" and alt: "re_match (One_or_more t # r) cs \<or> re_match r cs"
      by simp_all
    from alt show "\<exists>x y. c # cs = x @ y \<and> x \<noteq> [] \<and> (\<forall>c \<in> set x. atom_ok t c) \<and> re_match r y"
    proof
      assume "re_match (One_or_more t # r) cs"
      with Cons.IH obtain x y where "cs = x @ y" "\<forall>c \<in> set x. atom_ok t c" "re_match r y"
        by blast
      with ok have "c # cs = (c # x) @ y \<and> c # x \<noteq> []
          \<and> (\<forall>d \<in> set (c # x). atom_ok t d) \<and> re_match r y"
        by simp
      then show ?thesis by blast
    next
      assume "re_match r cs"
      with ok have "c # cs = [c] @ cs \<and> [c] \<noteq> []
          \<and> (\<forall>d \<in> set [c]. atom_ok t d) \<and> re_match r cs"
        by simp
      then show ?thesis by blast
    qed
  next
    assume "\<exists>x y. c # cs = x @ y \<and> x \<noteq> [] \<and> (\<forall>c \<in> set x. atom_ok t c) \<and> re_match r y"
    then obtain x y where xy: "c # cs = x @ y" "x \<noteq> []" "\<forall>c \<in> set x. atom_ok t c"
        "re_match r y"
      by blast
    then obtain x' where x: "x = c # x'" and cs: "cs = x' @ y"
      by (cases x) auto
    show "re_match (One_or_more t # r) (c # cs)"
    proof (cases "x' = []")
      case True
      with xy x cs show ?thesis by simp
    next
      case False
      with xy x cs have "re_match (One_or_more t # r) cs"
        using Cons.IH by auto
      with xy x show ?thesis by simp
    qed
  qed
qed

text \<open>
  The texts the pattern accepts: a local part, an at sign, a domain, a dot and a top-level
  part, none of them empty and none holding an at sign, followed by anything.
\<close>

lemma re_match_mail_pattern:
  "re_match mail_pattern s \<longleftrightarrow>
     (\<exists>l d t r. s = l @ ''@'' @ d @ ''.'' @ t @ r \<and> l \<noteq> [] \<and> d \<noteq> [] \<and> t \<noteq> []
        \<and> CHR ''@'' \<notin> set l \<and> CHR ''@'' \<notin> set d \<and> CHR ''@'' \<notin> set t)"
  (is "?L \<longleftrightarrow> ?R")
proof
  assume ?L
  then obtain l s1 where 1: "s = l @ s1" "l \<noteq> []" "\<forall>c \<in> set l. c \<noteq> CHR ''@''"
     and m1: "re_match [Once (Lit CHR ''@''), One_or_more (Not_in ''@''), Once (Lit CHR ''.''),
      One_or_more (Not_in ''@'')] s1"
    unfolding mail_pattern_def re_match_One_or_more [of _ _ s] by auto
  from m1 obtain s2 where 2: "s1 = CHR ''@'' # s2"
     and m2: "re_match [One_or_more (Not_in ''@''), Once (Lit CHR ''.''),
      One_or_more (Not_in ''@'')] s2"
    unfolding re_match_Once [of _ _ s1] by auto
  from m2 obtain d s3 where 3: "s2 = d @ s3" "d \<noteq> []" "\<forall>c \<in> set d. c \<noteq> CHR ''@''"
     and m3: "re_match [Once (Lit CHR ''.''), One_or_more (Not_in ''@'')] s3"
    unfolding re_match_One_or_more [of _ _ s2] by auto
  from m3 obtain s4 where 4: "s3 = CHR ''.'' # s4"
     and m4: "re_match [One_or_more (Not_in ''@'')] s4"
    unfolding re_match_Once [of _ _ s3] by auto
  from m4 obtain t r where 5: "s4 = t @ r" "t \<noteq> []" "\<forall>c \<in> set t. c \<noteq> CHR ''@''"
    unfolding re_match_One_or_more [of _ _ s4] by auto
  have "s = l @ ''@'' @ d @ ''.'' @ t @ r" using 1 2 3 4 5 by simp
  with 1 3 5 show ?R by blast
next
  assume ?R
  then obtain l d t r where s: "s = l @ ''@'' @ d @ ''.'' @ t @ r"
     and ne: "l \<noteq> []" "d \<noteq> []" "t \<noteq> []"
     and no: "CHR ''@'' \<notin> set l" "CHR ''@'' \<notin> set d" "CHR ''@'' \<notin> set t"
    by blast
  have m4: "re_match [One_or_more (Not_in ''@'')] (t @ r)"
    unfolding re_match_One_or_more [of _ _ "t @ r"] using ne no
    by (intro exI [of _ t] exI [of _ r]) auto
  have m3: "re_match [Once (Lit CHR ''.''), One_or_more (Not_in ''@'')] (''.'' @ t @ r)"
    using m4 by simp
  have m2: "re_match [One_or_more (Not_in ''@''), Once (Lit CHR ''.''),
      One_or_more (Not_in ''@'')] (d @ ''.'' @ t @ r)"
    unfolding re_match_One_or_more [of _ _ "d @ ''.'' @ t @ r"] using ne no m3
    by (intro exI [of _ d] exI [of _ "''.'' @ t @ r"]) auto
  have m1: "re_match [Once (Lit CHR ''@''), One_or_more (Not_in ''@''), Once (Lit CHR ''.''),
      One_or_more (Not_in ''@'')] (''@'' @ d @ ''.'' @ t @ r)"
    using m2 by simp
  show ?L
    unfolding mail_pattern_def s re_match_One_or_more [of _ _ "l @ ''@'' @ d @ ''.'' @ t @ r"]
    using ne no m1
    by (intro exI [of _ l] exI [of _ "''@'' @ d @ ''.'' @ t @ r"]) auto
qed

text \<open>
  The shape of the spec, spelled out: the whole text is a local part, an at sign, a domain,
  a dot and a top-level part, none of them empty, and the at sign is the only one.
\<close>

lemma has_mail_shape_iff:
  "has_mail_shape s \<longleftrightarrow>
     (\<exists>l d t. s = l @ ''@'' @ d @ ''.'' @ t \<and> l \<noteq> [] \<and> d \<noteq> [] \<and> t \<noteq> []
        \<and> CHR ''@'' \<notin> set l \<and> CHR ''@'' \<notin> set (d @ ''.'' @ t))"
  (is "?L \<longleftrightarrow> ?R")
proof
  let ?P = "\<lambda>c. c \<noteq> CHR ''@''"
  assume ?L
  define l where "l = takeWhile ?P s"
  define rest where "rest = dropWhile ?P s"
  define dt where "dt = tl rest"
  have sh: "l \<noteq> []" "rest \<noteq> []" "CHR ''@'' \<notin> set dt" "CHR ''.'' \<in> set (butlast (tl dt))"
    using \<open>?L\<close> by (simp_all add: has_mail_shape_def Let_def l_def rest_def dt_def)
  have s: "s = l @ rest"
    by (simp add: l_def rest_def)
  have "\<not> ?P (hd rest)"
    using sh(2) unfolding rest_def by (rule hd_dropWhile)
  with sh(2) have rest: "rest = CHR ''@'' # dt"
    by (cases rest) (simp_all add: dt_def)
  have nl: "CHR ''@'' \<notin> set l"
    unfolding l_def by (auto dest: set_takeWhileD)
  from sh(4) obtain ys zs where b: "butlast (tl dt) = ys @ CHR ''.'' # zs"
    by (auto dest: split_list)
  then have ne: "tl dt \<noteq> []"
    by auto
  then have "tl dt = butlast (tl dt) @ [last (tl dt)]"
    by simp
  with b have tl: "tl dt = ys @ CHR ''.'' # zs @ [last (tl dt)]"
    by simp
  from ne have "dt \<noteq> []"
    by auto
  then have "dt = hd dt # tl dt"
    by simp
  with tl have dt: "dt = (hd dt # ys) @ ''.'' @ (zs @ [last (tl dt)])"
    by simp
  have "s = l @ ''@'' @ (hd dt # ys) @ ''.'' @ (zs @ [last (tl dt)])"
    using s rest dt by simp
  moreover have "CHR ''@'' \<notin> set ((hd dt # ys) @ ''.'' @ (zs @ [last (tl dt)]))"
    using sh(3) dt by simp
  ultimately show ?R
    using sh(1) nl by blast
next
  let ?P = "\<lambda>c. c \<noteq> CHR ''@''"
  assume ?R
  then obtain l d t where s: "s = l @ ''@'' @ d @ ''.'' @ t"
    and ne: "l \<noteq> []" "d \<noteq> []" "t \<noteq> []"
    and no: "CHR ''@'' \<notin> set l" "CHR ''@'' \<notin> set (d @ ''.'' @ t)"
    by blast
  have s': "s = l @ CHR ''@'' # (d @ ''.'' @ t)"
    using s by simp
  have tw: "takeWhile ?P s = l"
    unfolding s' using no(1) by (subst takeWhile_tail) auto
  have dw: "dropWhile ?P s = CHR ''@'' # (d @ ''.'' @ t)"
    unfolding s' using no(1) by (subst dropWhile_append3) (auto simp add: dropWhile_eq_Nil_conv)
  obtain d0 d' where d: "d = d0 # d'"
    using ne(2) by (cases d) auto
  have "butlast (tl (d @ ''.'' @ t)) = d' @ CHR ''.'' # butlast t"
    using ne(3) d by (simp add: butlast_append)
  then have "CHR ''.'' \<in> set (butlast (tl (d @ ''.'' @ t)))"
    by simp
  then show ?L
    using ne(1) no(2) by (simp add: has_mail_shape_def Let_def tw dw)
qed

text \<open>Every text of the shape is accepted by the pattern; the converse fails.\<close>

lemma has_mail_shape_matches:
  assumes "has_mail_shape s"
  shows "re_match mail_pattern s"
proof -
  from assms obtain l d t where "s = l @ ''@'' @ d @ ''.'' @ t @ []" "l \<noteq> []" "d \<noteq> []"
      "t \<noteq> []" "CHR ''@'' \<notin> set l" "CHR ''@'' \<notin> set d" "CHR ''@'' \<notin> set t"
    unfolding has_mail_shape_iff by auto
  then show ?thesis
    unfolding re_match_mail_pattern by blast
qed

text \<open>
  The check of \<open>remote_run\<close> comes before the submission: with every other rule met,
  the command is rejected with an empty trace when the mail option is absent or the
  pattern has no match in it, and accepted otherwise.
\<close>

lemma remote_run_mail_check:
  assumes "(algotext a \<noteq> None) \<noteq> (algofile a \<noteq> None)"
    and "start a \<noteq> None" and "end_date a \<noteq> None" and "exchange_name a \<noteq> None"
    and "quote_currency a \<noteq> None" and "capital_base a \<noteq> None"
  shows "mail a = None \<or> (\<exists>s. mail a = Some s \<and> \<not> re_match mail_pattern s) \<Longrightarrow>
            remote_run w a = ([], Inl (UsageError msg_mail))"
    and "\<exists>s. mail a = Some s \<and> re_match mail_pattern s \<Longrightarrow>
            validation (remote_run w a) = Accepted"
proof -
  assume "mail a = None \<or> (\<exists>s. mail a = Some s \<and> \<not> re_match mail_pattern s)"
  then have "mail_invalid (mail a)"
    by (auto simp add: mail_invalid_def)
  then have "validation (remote_run w a) = Rejected msg_mail"
    by (simp only: remote_run_verdict [OF assms] if_True)
  then show "remote_run w a = ([], Inl (UsageError msg_mail))"
    by (rule remote_run_rejected)
next
  assume "\<exists>s. mail a = Some s \<and> re_match mail_pattern s"
  then have "\<not> mail_invalid (mail a)"
    by (auto simp add: mail_invalid_def)
  then show "validation (remote_run w a) = Accepted"
    by (simp only: remote_run_verdict [OF assms] if_False)
qed

text \<open>
  Claim C6, at inputs where the code departs from it. \<open>re.match\<close> anchors the pattern
  at the start of the text and not at its end, so a text that only begins with an address
  passes: \<open>a@b.c@d\<close> and \<open>ops@example.com, eve@evil.org\<close> do not have the shape
  \<open>local-part@domain.tld\<close>, and \<open>remote_run\<close> accepts them and submits the job.
  On \<open>not-an-email\<close>, on \<open>ops@example\<close> and on \<open>ops@example.com\<close> the code
  and the shape agree.
\<close>

theorem remote_run_mail_unanchored:
  "\<not> has_mail_shape ''a@b.c@d''
   \<and> validation (remote_run posix_world (backtest_opts\<lparr>mail := Some ''a@b.c@d''\<rparr>)) = Accepted
   \<and> snd (remote_run posix_world (backtest_opts\<lparr>mail := Some ''a@b.c@d''\<rparr>)) = Inr ''job-1''
   \<and> outputs (fst (remote_run posix_world (backtest_opts\<lparr>mail := Some ''a@b.c@d''\<rparr>))) =
       [Print ''job-1'']
   \<and> \<not> has_mail_shape ''ops@example.com, eve@evil.org''
   \<and> snd (remote_run posix_world
         (backtest_opts\<lparr>mail := Some ''ops@example.com, eve@evil.org''\<rparr>)) = Inr ''job-1''
   \<and> \<not> has_mail_shape ''not-an-email''
   \<and> remote_run posix_world (backtest_opts\<lparr>mail := Some ''not-an-email''\<rparr>) =
       ([], Inl (UsageError msg_mail))
   \<and> \<not> has_mail_shape ''ops@example''
   \<and> remote_run posix_world (backtest_opts\<lparr>mail := Some ''ops@example''\<rparr>) =
       ([], Inl (UsageError msg_mail))
   \<and> remote_run posix_world (backtest_opts\<lparr>mail := None\<rparr>) =
       ([], Inl (UsageError msg_mail))
   \<and> has_mail_shape ''ops@example.com''
   \<and> snd (remote_run posix_world (backtest_opts\<lparr>mail := Some ''ops@example.com''\<rparr>)) =
       Inr ''job-1''"
  by (simp add: has_mail_shape_def remote_run_def ipython_only_def remote_run_body_def
      mail_invalid_def mail_pattern_def validation_snd proj_simps step_defs outputs_def
      posix_world_def backtest_opts_def)


subsection \<open>The detailed status\<close>

lemmas remote_status_defs = remote_status_def call_get_remote_status_def collaborator_def
  bind_cmd_def seq_def step_defs

text \<open>
  When the response is the tuple and carries a log text, a run of \<open>remote_status\<close>
  that completes has written the log (to the error stream for \<open>-\<close>, nowhere for the
  null device, to the file otherwise), then the result when there is one (to the output
  stream under its label for \<open>-\<close>, nowhere for the null device, pickled to the file
  otherwise), and has printed the status last.
\<close>

lemma remote_status_completed:
  assumes "get_remote_status w i = Inr (Triple status perf (Some l))"
    and "snd (remote_status w (Some i) d lo) = Inr r"
  shows "remote_status w (Some i) d lo =
     ([Call_get_remote_status i]
      @ (if lo = ''-'' then [Echo l Stderr]
         else if lo \<noteq> devnull w then [Open_w lo, File_write lo l] else [])
      @ (case perf of
           Some p \<Rightarrow>
             if d = ''-'' then
               [Echo (''the performance data is:'' @ [CHR 0x0A] @ str_perf p) Stdout]
             else if d \<noteq> devnull w then [To_pickle p d] else []
         | None \<Rightarrow> [])
      @ [Print status],
      Inr (Status_perf status perf))"
  using assms
  by (cases perf)
     (auto simp add: remote_status_defs split: option.splits if_splits)

text \<open>
  Claim C2, at an input where the code departs from it. The response is the tuple with a
  result and without a log text, and the log destination is a file: \<open>remote_status\<close>
  opens the file, \<open>file.write(None)\<close> raises \<open>TypeError\<close>, and the command ends
  there. The result is not written and the status is not printed.
\<close>

theorem remote_status_absent_log:
  "remote_status no_log_world (Some ''job-1'') ''-'' ''run.log'' =
     ([Call_get_remote_status ''job-1'', Open_w ''run.log''],
      Inl (TypeError ''write() argument must be str, not None''))
   \<and> exit_code (remote_status no_log_world (Some ''job-1'') ''-'' ''run.log'') = 1"
  by (simp add: remote_status_defs no_log_world_def posix_world_def)


subsection \<open>Where the artifacts go\<close>








subsection \<open>The exchange of \<open>ingest_exchange\<close>\<close>

lemma sublist_join: "x \<in> set xs \<Longrightarrow> sublist x (join sep xs)"
proof (induction sep xs rule: join.induct)
  case (1 sep)
  then show ?case by simp
next
  case (2 sep y)
  then show ?case by simp
next
  case (3 sep y z zs)
  show ?case
  proof (cases "x = y")
    case True
    then show ?thesis by simp
  next
    case False
    with 3 have "sublist x (join sep (z # zs))"
      by simp
    then obtain ps ss where "join sep (z # zs) = ps @ x @ ss"
      unfolding sublist_def by blast
    then have "join sep (y # z # zs) = (y @ sep @ ps) @ x @ ss"
      by simp
    then show ?thesis
      unfolding sublist_def by blast
  qed
qed

text \<open>The message of the exchange check holds every known exchange name.\<close>

lemma msg_unsupported_lists:
  assumes "x \<in> set names"
  shows "sublist x (msg_unsupported name names)"
proof -
  have "py_repr x \<in> set (map py_repr names)"
    using assms by simp
  then have "sublist (py_repr x) (join '', '' (map py_repr names))"
    by (rule sublist_join)
  then obtain ps ss where "join '', '' (map py_repr names) = ps @ py_repr x @ ss"
    unfolding sublist_def by blast
  then have "msg_unsupported name names =
      (''ingest-exchange does not support '' @ name @ '', please choose exchange from: ''
         @ ''['' @ ps @ [CHR 0x27]) @ x @ ([CHR 0x27] @ ss @ '']'')"
    by (simp add: msg_unsupported_def str_list_def py_repr_def)
  then show ?thesis
    unfolding sublist_def by blast
qed

text \<open>
  Claim C4 as stated fails for a CSV option that is given and empty: \<open>not csv\<close> holds
  of the empty path as it does of \<open>None\<close>, so an unknown exchange is still rejected.
\<close>

theorem ingest_empty_csv_counterexample:
  "csv (backtest_opts\<lparr>exchange_name := Some ''unknownxyz'', csv := Some ''''\<rparr>) \<noteq> None
   \<and> ingest_exchange posix_world
       (backtest_opts\<lparr>exchange_name := Some ''unknownxyz'', csv := Some ''''\<rparr>) =
     ([], Inl (UsageError
        (msg_unsupported ''unknownxyz'' [''bitfinex'', ''bittrex'', ''poloniex''])))"
  by (simp add: ingest_exchange_def falsy_def ctx_fail_def posix_world_def backtest_opts_def)

text \<open>
  Claim C4, amended. With an exchange name outside \<open>EXCHANGE_NAMES\<close> and a CSV option
  that is absent or empty, \<open>ingest_exchange\<close> is rejected before any call, with a
  message that holds every name of \<open>EXCHANGE_NAMES\<close>. With a CSV path that is not
  empty it is accepted for any exchange name, whatever start, end, include-symbols and
  exclude-symbols are, and what the engine ingests is the CSV file: it does not depend on
  those four values.
\<close>

theorem ingest_exchange_validation:
  "(exchange_name a = Some n \<and> n \<notin> set (EXCHANGE_NAMES w) \<and> falsy (csv a) \<longrightarrow>
      ingest_exchange w a = ([], Inl (UsageError (msg_unsupported n (EXCHANGE_NAMES w))))
      \<and> (\<forall>x \<in> set (EXCHANGE_NAMES w). sublist x (msg_unsupported n (EXCHANGE_NAMES w))))
   \<and> (exchange_name a = Some n \<and> csv a = Some p \<and> p \<noteq> [] \<longrightarrow>
      validation (ingest_exchange w
        (a\<lparr>start := s, end_date := e, include_symbols := inc, exclude_symbols := exc\<rparr>)) =
        Accepted
      \<and> ingest_effects (fst (ingest_exchange w
        (a\<lparr>start := s, end_date := e, include_symbols := inc, exclude_symbols := exc\<rparr>))) =
        [Ingest_csv n p (data_frequency a) (show_progress a) (verbose a) (validate a)])"
proof (intro conjI impI ballI)
  assume "exchange_name a = Some n \<and> n \<notin> set (EXCHANGE_NAMES w) \<and> falsy (csv a)"
  then show "ingest_exchange w a =
      ([], Inl (UsageError (msg_unsupported n (EXCHANGE_NAMES w))))"
    by (simp add: ingest_exchange_def ctx_fail_def)
next
  fix x assume "x \<in> set (EXCHANGE_NAMES w)"
  then show "sublist x (msg_unsupported n (EXCHANGE_NAMES w))"
    by (rule msg_unsupported_lists)
next
  assume "exchange_name a = Some n \<and> csv a = Some p \<and> p \<noteq> []"
  then show "validation (ingest_exchange w
        (a\<lparr>start := s, end_date := e, include_symbols := inc, exclude_symbols := exc\<rparr>)) =
        Accepted"
    by (simp add: validation_ingest_exchange falsy_def)
next
  assume "exchange_name a = Some n \<and> csv a = Some p \<and> p \<noteq> []"
  then show "ingest_effects (fst (ingest_exchange w
        (a\<lparr>start := s, end_date := e, include_symbols := inc, exclude_symbols := exc\<rparr>))) =
        [Ingest_csv n p (data_frequency a) (show_progress a) (verbose a) (validate a)]"
    by (simp add: ingest_exchange_def falsy_def proj_simps step_defs ExchangeBundle_ingest_def)
qed

theorem ingest_exchange_validation_witness:
  "ingest_exchange posix_world (backtest_opts\<lparr>exchange_name := Some ''unknownxyz''\<rparr>) =
     ([], Inl (UsageError
        (msg_unsupported ''unknownxyz'' [''bitfinex'', ''bittrex'', ''poloniex''])))
   \<and> sublist ''bittrex''
       (msg_unsupported ''unknownxyz'' [''bitfinex'', ''bittrex'', ''poloniex''])
   \<and> validation (ingest_exchange posix_world
       (backtest_opts\<lparr>exchange_name := Some ''unknownxyz'', csv := Some ''bars.csv'',
          start := Some 5, end_date := None, include_symbols := Some ''btc_usd'',
          exclude_symbols := None\<rparr>)) = Accepted
   \<and> ingest_effects (fst (ingest_exchange posix_world
       (backtest_opts\<lparr>exchange_name := Some ''unknownxyz'', csv := Some ''bars.csv'',
          start := Some 5, end_date := None, include_symbols := Some ''btc_usd'',
          exclude_symbols := None\<rparr>))) =
       [Ingest_csv ''unknownxyz'' ''bars.csv'' ''daily'' True False False]"
  using ingest_exchange_validation
          [where a = "backtest_opts\<lparr>exchange_name := Some ''unknownxyz''\<rparr>"
             and n = "''unknownxyz''" and w = posix_world]
        ingest_exchange_validation
          [where a = "backtest_opts\<lparr>exchange_name := Some ''unknownxyz'',
                        csv := Some ''bars.csv''\<rparr>"
             and n = "''unknownxyz''" and w = posix_world and p = "''bars.csv''"
             and s = "Some 5" and e = None and inc = "Some ''btc_usd''" and exc = None]
  by (simp add: posix_world_def backtest_opts_def falsy_def)


end
